theory Spec2Isabelle
  imports Main "HOL-Library.AList" "HOL-Library.Sublist"
begin

section \<open>Data model\<close>

text \<open>
  The program works on pandas objects. A cell of the table read by \<open>pd.read_csv\<close> is
  either missing (\<open>NaN\<close>), a string or a number. A column is a positional sequence of
  cells; a row handed to a row function is a sequence of cells labelled by column name.
  Looking up a label that a row does not carry raises \<open>KeyError\<close>; taking position 0
  of an empty index raises \<open>IndexError\<close>.
\<close>

datatype cell = NaN | Str string | Num int

datatype error = KeyError | IndexError

type_synonym series = "cell list"

type_synonym row = "(string \<times> cell) list"

text \<open>
  A data frame has its column labels and its rows, in order. A stored row that carries
  no entry for a column reads as missing there, as a short line of the input file does.
\<close>

record dataframe =
  columns :: "string list"
  rows :: "row list"

text \<open>\<open>pd.isnull\<close> on a scalar.\<close>

definition isnull :: "cell \<Rightarrow> bool" where
  "isnull c = (case c of NaN \<Rightarrow> True | _ \<Rightarrow> False)"

text \<open>\<open>row[label]\<close> on a row series.\<close>

definition row_getitem :: "row \<Rightarrow> string \<Rightarrow> error + cell" where
  "row_getitem r label = (case map_of r label of None \<Rightarrow> Inl KeyError | Some v \<Rightarrow> Inr v)"

text \<open>The cell of a stored row under a column of the frame.\<close>

definition cell_at :: "row \<Rightarrow> string \<Rightarrow> cell" where
  "cell_at r c = (case map_of r c of None \<Rightarrow> NaN | Some v \<Rightarrow> v)"

text \<open>\<open>df[column]\<close>: the column as a series, \<open>KeyError\<close> for an unknown label.\<close>

definition getitem :: "dataframe \<Rightarrow> string \<Rightarrow> error + series" where
  "getitem d c =
     (if c \<in> set (columns d) then Inr (map (\<lambda>r. cell_at r c) (rows d)) else Inl KeyError)"

text \<open>
  \<open>df[column] = s\<close>: overwrites the column, or appends a new one when the label is
  not yet a column of the frame.
\<close>

definition setitem :: "dataframe \<Rightarrow> string \<Rightarrow> series \<Rightarrow> dataframe" where
  "setitem d c s =
     \<lparr>columns = (if c \<in> set (columns d) then columns d else columns d @ [c]),
      rows = map2 (\<lambda>r v. AList.update c v r) (rows d) s\<rparr>"




section \<open>data\_processor.py\<close>

text \<open>
  \<open>fill_city(row)\<close>:
  \<^verbatim>\<open>return row['State/Province'] if pd.isnull(row['City']) else row['City']\<close>
  The condition is evaluated first; only the chosen branch is read.
\<close>

definition fill_city :: "row \<Rightarrow> error + cell" where
  "fill_city r =
     (case row_getitem r ''City'' of
        Inl e \<Rightarrow> Inl e
      | Inr c \<Rightarrow> if isnull c then row_getitem r ''State/Province'' else row_getitem r ''City'')"

text \<open>
  The processor object: its configuration and the frame it owns. A method that assigns
  to \<open>self.df\<close> returns the processor after the call; a method that only reads returns
  its result together with the processor after the call.
\<close>

record data_processor =
  config :: "(string \<times> string) list"
  df :: dataframe


text \<open>
  \<open>Series.replace(value_map)\<close> with a dict: every cell that is a key of the dict becomes
  the dict's value for it, every other cell stays; all keys are matched against the
  cells as they were before the call. The dict is kept as its list of items.
\<close>

definition replace :: "series \<Rightarrow> (cell \<times> cell) list \<Rightarrow> series" where
  "replace s value_map = map (\<lambda>v. case map_of value_map v of None \<Rightarrow> v | Some w \<Rightarrow> w) s"

text \<open>
  \<open>replace_values(column, value_map)\<close>:
  \<^verbatim>\<open>self.df[column] = self.df[column].replace(value_map)\<close>
\<close>

definition replace_values ::
  "string \<Rightarrow> (cell \<times> cell) list \<Rightarrow> data_processor \<Rightarrow> error + data_processor" where
  "replace_values column value_map self =
     (case getitem (df self) column of
        Inl e \<Rightarrow> Inl e
      | Inr s \<Rightarrow> Inr (self\<lparr>df := setitem (df self) column (replace s value_map)\<rparr>))"

text \<open>\<open>series == country_code\<close>: the boolean mask; a missing cell equals no string.\<close>

definition series_eq :: "series \<Rightarrow> string \<Rightarrow> bool list" where
  "series_eq s code = map (\<lambda>v. v = Str code) s"

text \<open>\<open>df[mask]\<close>: a new frame with the rows under a true mask entry, in order.\<close>

definition boolean_index :: "dataframe \<Rightarrow> bool list \<Rightarrow> dataframe" where
  "boolean_index d bmask =
     \<lparr>columns = columns d, rows = map fst (filter snd (zip (rows d) bmask))\<rparr>"

text \<open>
  \<open>filter_by_country(country_code)\<close>:
  \<^verbatim>\<open>return self.df[self.df['Country'] == country_code]\<close>
\<close>

definition filter_by_country ::
  "string \<Rightarrow> data_processor \<Rightarrow> error + (dataframe \<times> data_processor)" where
  "filter_by_country country_code self =
     (case getitem (df self) ''Country'' of
        Inl e \<Rightarrow> Inl e
      | Inr s \<Rightarrow> Inr (boolean_index (df self) (series_eq s country_code), self))"

text \<open>\<open>df.isnull().sum()\<close>: for every column, in order, the number of its missing cells.\<close>

definition isnull_sum :: "dataframe \<Rightarrow> (string \<times> nat) list" where
  "isnull_sum d =
     map (\<lambda>c. (c, length (filter isnull (map (\<lambda>r. cell_at r c) (rows d))))) (columns d)"

text \<open>
  \<open>missing_data\<close>:
  \<^verbatim>\<open>return self.df.isnull().sum()[lambda x: x > 0]\<close>
\<close>

definition missing_data :: "data_processor \<Rightarrow> (string \<times> nat) list" where
  "missing_data self = filter (\<lambda>cn. 0 < snd cn) (isnull_sum (df self))"

section \<open>Frequency counts\<close>

text \<open>
  \<open>Series.nunique()\<close> and \<open>Series.value_counts()\<close> both leave missing cells out.
  \<open>value_counts\<close> lists each remaining value once, with the number of rows holding it,
  by descending count; values with equal counts stay in the order of their first
  appearance.
\<close>

definition dropna :: "series \<Rightarrow> series" where
  "dropna s = filter (\<lambda>v. \<not> isnull v) s"

definition unique :: "series \<Rightarrow> series" where
  "unique s = rev (remdups (rev s))"

definition nunique :: "series \<Rightarrow> nat" where
  "nunique s = length (unique (dropna s))"

definition sort_values_desc :: "(cell \<times> nat) list \<Rightarrow> (cell \<times> nat) list" where
  "sort_values_desc vc = sort_key (\<lambda>p. - int (snd p)) vc"

definition value_counts :: "series \<Rightarrow> (cell \<times> nat) list" where
  "value_counts s =
     sort_values_desc (map (\<lambda>v. (v, count_list (dropna s) v)) (unique (dropna s)))"

text \<open>\<open>.index[0]\<close> of a counted series: its first label, \<open>IndexError\<close> when there is none.\<close>

definition index0 :: "(cell \<times> nat) list \<Rightarrow> error + cell" where
  "index0 vc = (case vc of [] \<Rightarrow> Inl IndexError | p # _ \<Rightarrow> Inr (fst p))"

section \<open>analyzer.py\<close>

record analysis =
  total_stores :: nat
  total_countries :: nat
  top_country :: cell
  top_city :: cell

text \<open>
  \<open>analyze_data(df)\<close> builds its dict entry by entry, so the first failing entry decides
  the exception:
  \<^verbatim>\<open>
  return {
      'total_stores': df['Store Number'].nunique(),
      'total_countries': df['Country'].nunique(),
      'top_country': df['Country'].value_counts().index[0],
      'top_city': df['City'].value_counts().index[0]
  }
  \<close>
\<close>

definition analyze_data :: "dataframe \<Rightarrow> error + analysis" where
  "analyze_data d =
     (case getitem d ''Store Number'' of
        Inl e \<Rightarrow> Inl e
      | Inr stores \<Rightarrow>
     (case getitem d ''Country'' of
        Inl e \<Rightarrow> Inl e
      | Inr countries \<Rightarrow>
     (case index0 (value_counts countries) of
        Inl e \<Rightarrow> Inl e
      | Inr tc \<Rightarrow>
     (case getitem d ''City'' of
        Inl e \<Rightarrow> Inl e
      | Inr cities \<Rightarrow>
     (case index0 (value_counts cities) of
        Inl e \<Rightarrow> Inl e
      | Inr tci \<Rightarrow>
          Inr \<lparr>total_stores = nunique stores, total_countries = nunique countries,
               top_country = tc, top_city = tci\<rparr>)))))"

section \<open>visualizer.py\<close>

text \<open>
  \<open>Series.nlargest(n)\<close>: nothing for \<open>n \<le> 0\<close>, otherwise the first \<open>n\<close> entries by
  descending count, earlier entries first among equal counts.
\<close>

definition nlargest :: "int \<Rightarrow> (cell \<times> nat) list \<Rightarrow> (cell \<times> nat) list" where
  "nlargest n vc = (if n \<le> 0 then [] else take (nat n) (sort_values_desc vc))"

text \<open>The slice \<open>xs[:n]\<close>; a negative \<open>n\<close> counts from the end.\<close>

definition slice_to :: "int \<Rightarrow> 'a list \<Rightarrow> 'a list" where
  "slice_to n xs = (if 0 \<le> n then take (nat n) xs else take (length xs - nat (- n)) xs)"

text \<open>
  \<open>plot_top_n(data, n, ...)\<close> hands the labels \<open>data.index[:n]\<close> and the heights
  \<open>data.values[:n]\<close> to \<open>sns.barplot\<close>; the model keeps the (label, height) pairs
  handed over, in order. The drawing itself is not modelled.
\<close>

definition plot_top_n :: "(cell \<times> nat) list \<Rightarrow> int \<Rightarrow> (cell \<times> nat) list" where
  "plot_top_n data n = zip (slice_to n (map fst data)) (slice_to n (map snd data))"

text \<open>
  \<open>plot_top_countries(df, n)\<close>:
  \<^verbatim>\<open>
  top_countries = df['Country'].value_counts().nlargest(n)
  cls.plot_top_n(top_countries, n, ...)
  \<close>
\<close>

definition plot_top_countries :: "dataframe \<Rightarrow> int \<Rightarrow> error + (cell \<times> nat) list" where
  "plot_top_countries d n =
     (case getitem d ''Country'' of
        Inl e \<Rightarrow> Inl e
      | Inr s \<Rightarrow> Inr (plot_top_n (nlargest n (value_counts s)) n))"

section \<open>Auxiliary facts about frames\<close>

lemma cell_at_update:
  "cell_at (AList.update c v r) c' = (if c' = c then v else cell_at r c')"
  by (simp add: cell_at_def update_conv')



lemma rows_setitem_nth:
  "length s = length (rows d) \<Longrightarrow> i < length (rows d) \<Longrightarrow>
   rows (setitem d c s) ! i = AList.update c (s ! i) (rows d ! i)"
  by (simp add: setitem_def)

lemma length_rows_setitem:
  "length s = length (rows d) \<Longrightarrow> length (rows (setitem d c s)) = length (rows d)"
  by (simp add: setitem_def)

lemma columns_setitem:
  "columns (setitem d c s) = (if c \<in> set (columns d) then columns d else columns d @ [c])"
  by (simp add: setitem_def)

lemma filter_zip_map:
  "map fst (filter snd (zip rs (map P rs))) = filter P rs"
  by (induction rs) auto

lemma filter_by_country_eq:
  "''Country'' \<in> set (columns (df self)) \<Longrightarrow>
   filter_by_country code self =
     Inr (\<lparr>columns = columns (df self),
           rows = filter (\<lambda>r. cell_at r ''Country'' = Str code) (rows (df self))\<rparr>, self)"
  by (simp add: filter_by_country_def getitem_def boolean_index_def series_eq_def o_def
      filter_zip_map [where P = "\<lambda>r. cell_at r ''Country'' = Str code"])

lemma replace_values_eq:
  "column \<in> set (columns (df self)) \<Longrightarrow>
   replace_values column value_map self =
     Inr (self\<lparr>df := setitem (df self) column
            (replace (map (\<lambda>r. cell_at r column) (rows (df self))) value_map)\<rparr>)"
  by (simp add: replace_values_def getitem_def)

lemma isnull_iff: "isnull c \<longleftrightarrow> c = NaN"
  by (simp add: isnull_def split: cell.splits)

lemma null_count_card:
  "length (filter isnull (map (\<lambda>r. cell_at r c) rs)) =
     card {i. i < length rs \<and> cell_at (rs ! i) c = NaN}"
proof -
  have "{i. i < length rs \<and> isnull (map (\<lambda>r. cell_at r c) rs ! i)} =
        {i. i < length rs \<and> cell_at (rs ! i) c = NaN}"
    by (auto simp: isnull_iff)
  then show ?thesis
    by (simp add: length_filter_conv_card)
qed

lemma replace_fixed:
  assumes "\<forall>k v. map_of vm k = Some v \<longrightarrow> map_of vm v = None \<or> map_of vm v = Some v"
  shows "replace (replace s vm) vm = replace s vm"
proof -
  have "(case map_of vm (case map_of vm x of None \<Rightarrow> x | Some w \<Rightarrow> w) of
           None \<Rightarrow> (case map_of vm x of None \<Rightarrow> x | Some w \<Rightarrow> w) | Some w \<Rightarrow> w) =
        (case map_of vm x of None \<Rightarrow> x | Some w \<Rightarrow> w)" for x
  proof (cases "map_of vm x")
    case None
    then show ?thesis by simp
  next
    case (Some w)
    with assms have "map_of vm w = None \<or> map_of vm w = Some w"
      by blast
    with Some show ?thesis by auto
  qed
  then show ?thesis
    by (simp add: replace_def)
qed

lemma map_cell_at_setitem:
  "length s = length (rows d) \<Longrightarrow> map (\<lambda>r. cell_at r c) (rows (setitem d c s)) = s"
  by (simp add: list_eq_iff_nth_eq setitem_def cell_at_update)

lemma setitem_same:
  "length s = length (rows d) \<Longrightarrow> c \<in> set (columns d) \<Longrightarrow>
   setitem (setitem d c s) c s = setitem d c s"
  by (simp add: setitem_def list_eq_iff_nth_eq)

lemma length_replace: "length (replace s vm) = length s"
  by (simp add: replace_def)

section \<open>Auxiliary facts about frequency counts\<close>

lemma set_dropna: "set (dropna s) = set s - {NaN}"
  by (auto simp: dropna_def isnull_iff)

lemma set_unique: "set (unique s) = set s"
  by (simp add: unique_def)

lemma distinct_unique: "distinct (unique s)"
  by (simp add: unique_def)

lemma nunique_card: "nunique s = card (set s - {NaN})"
proof -
  have "length (unique (dropna s)) = card (set (unique (dropna s)))"
    using distinct_unique by (simp add: distinct_card)
  then show ?thesis
    by (simp add: nunique_def set_unique set_dropna)
qed

lemma count_list_dropna: "v \<noteq> NaN \<Longrightarrow> count_list (dropna s) v = count_list s v"
  by (induction s) (auto simp: dropna_def isnull_iff)

lemma count_list_map_rows:
  "count_list (map f rs) v = length (filter (\<lambda>r. f r = v) rs)"
  by (induction rs) auto

lemma set_value_counts:
  "set (value_counts s) = (\<lambda>v. (v, count_list s v)) ` (set s - {NaN})"
proof -
  have "(\<lambda>v. (v, count_list (dropna s) v)) ` (set s - {NaN}) =
        (\<lambda>v. (v, count_list s v)) ` (set s - {NaN})"
    by (rule image_cong) (auto simp: count_list_dropna)
  then show ?thesis
    by (simp add: value_counts_def sort_values_desc_def set_unique set_dropna)
qed

lemma length_value_counts: "length (value_counts s) = nunique s"
  by (simp add: value_counts_def sort_values_desc_def nunique_def)

lemma distinct_map_insort_key:
  "distinct (map g (insort_key f x xs)) \<longleftrightarrow> g x \<notin> g ` set xs \<and> distinct (map g xs)"
  by (induction xs) (auto simp: set_insort_key)

lemma distinct_map_sort_key:
  "distinct (map g (sort_key f xs)) \<longleftrightarrow> distinct (map g xs)"
  by (induction xs) (simp_all add: distinct_map_insort_key)

lemma distinct_value_counts: "distinct (map fst (value_counts s))"
  by (simp add: value_counts_def sort_values_desc_def distinct_map_sort_key o_def distinct_unique)

lemma sorted_desc_sort_values:
  "sorted_wrt (\<lambda>a b. snd b \<le> snd a) (sort_values_desc vc)"
proof -
  have "sorted (map (\<lambda>p. - int (snd p)) (sort_values_desc vc))"
    by (simp add: sort_values_desc_def)
  then show ?thesis
    by (simp add: sorted_wrt_map)
qed

lemma sorted_desc_value_counts:
  "sorted_wrt (\<lambda>a b. snd b \<le> snd a) (value_counts s)"
  by (simp add: value_counts_def sorted_desc_sort_values)

lemma sort_values_desc_idem:
  "sort_values_desc (sort_values_desc vc) = sort_values_desc vc"
  by (simp add: sort_values_desc_def sort_key_id_if_sorted)

lemma value_counts_Nil_iff: "value_counts s = [] \<longleftrightarrow> set s \<subseteq> {NaN}"
proof -
  have "value_counts s = [] \<longleftrightarrow> set (value_counts s) = {}"
    by simp
  then show ?thesis
    by (auto simp: set_value_counts)
qed

lemma value_counts_head:
  assumes "value_counts s = p # ps"
  shows "fst p \<in> set s \<and> fst p \<noteq> NaN \<and> snd p = count_list s (fst p) \<and>
     (\<forall>v. v \<noteq> NaN \<longrightarrow> count_list s v \<le> count_list s (fst p))"
proof -
  have "p \<in> set (value_counts s)"
    by (simp add: assms)
  then have p: "fst p \<in> set s" "fst p \<noteq> NaN" "snd p = count_list s (fst p)"
    by (auto simp: set_value_counts)
  have le: "count_list s v \<le> count_list s (fst p)" if "v \<noteq> NaN" for v
  proof (cases "v \<in> set s")
    case False
    then show ?thesis by (simp add: count_list_0_iff)
  next
    case True
    with that have "(v, count_list s v) \<in> set (value_counts s)"
      by (auto simp: set_value_counts)
    then have "(v, count_list s v) = p \<or> (v, count_list s v) \<in> set ps"
      by (simp add: assms)
    moreover have "\<forall>q \<in> set ps. snd q \<le> snd p"
      using sorted_desc_value_counts [of s] by (simp add: assms)
    ultimately show ?thesis
      using p(3) by auto
  qed
  show ?thesis
    using p le by simp
qed

lemma index0_value_counts:
  "index0 (value_counts s) = (if set s \<subseteq> {NaN} then Inl IndexError else Inr (fst (hd (value_counts s))))"
  using value_counts_Nil_iff [of s]
  by (cases "value_counts s") (auto simp: index0_def)

lemma analyze_data_eq:
  assumes "''Store Number'' \<in> set (columns d)" "''Country'' \<in> set (columns d)"
    "''City'' \<in> set (columns d)"
  shows "analyze_data d =
     (if (\<forall>r \<in> set (rows d). cell_at r ''Country'' = NaN) \<or>
         (\<forall>r \<in> set (rows d). cell_at r ''City'' = NaN)
      then Inl IndexError
      else Inr \<lparr>total_stores = nunique (map (\<lambda>r. cell_at r ''Store Number'') (rows d)),
             total_countries = nunique (map (\<lambda>r. cell_at r ''Country'') (rows d)),
             top_country = fst (hd (value_counts (map (\<lambda>r. cell_at r ''Country'') (rows d)))),
             top_city = fst (hd (value_counts (map (\<lambda>r. cell_at r ''City'') (rows d))))\<rparr>)"
proof -
  have sub: "set (map (\<lambda>r. cell_at r c) (rows d)) \<subseteq> {NaN} \<longleftrightarrow>
      (\<forall>r \<in> set (rows d). cell_at r c = NaN)" for c
    by auto
  show ?thesis
    using assms
    by (simp add: analyze_data_def getitem_def index0_value_counts sub del: set_map)
qed

lemma top_value_counts:
  assumes "\<exists>r \<in> set rs. f r \<noteq> NaN"
  shows "fst (hd (value_counts (map f rs))) \<noteq> NaN \<and>
     (\<exists>r \<in> set rs. f r = fst (hd (value_counts (map f rs)))) \<and>
     (\<forall>v. v \<noteq> NaN \<longrightarrow> length (filter (\<lambda>r. f r = v) rs) \<le>
         length (filter (\<lambda>r. f r = fst (hd (value_counts (map f rs)))) rs))"
proof -
  from assms have "\<not> set (map f rs) \<subseteq> {NaN}"
    by auto
  then obtain p ps where vc: "value_counts (map f rs) = p # ps"
    using value_counts_Nil_iff [of "map f rs"] by (cases "value_counts (map f rs)") auto
  from value_counts_head [OF vc] show ?thesis
    by (auto simp: vc count_list_map_rows)
qed

lemma slice_to_short: "0 < n \<Longrightarrow> length ys \<le> nat n \<Longrightarrow> slice_to n ys = ys"
  by (simp add: slice_to_def)

lemma plot_top_countries_eq:
  assumes "0 < n" and "''Country'' \<in> set (columns d)"
  shows "plot_top_countries d n =
     Inr (take (nat n) (value_counts (map (\<lambda>r. cell_at r ''Country'') (rows d))))"
proof -
  let ?vc = "value_counts (map (\<lambda>r. cell_at r ''Country'') (rows d))"
  have "nlargest n ?vc = take (nat n) ?vc"
    using assms(1) by (simp add: nlargest_def value_counts_def sort_values_desc_idem)
  moreover have "plot_top_n (take (nat n) ?vc) n = take (nat n) ?vc"
    using assms(1) by (simp add: plot_top_n_def slice_to_short zip_map_fst_snd)
  ultimately show ?thesis
    using assms(2) by (simp add: plot_top_countries_def getitem_def)
qed

lemma sorted_desc_take_drop:
  assumes "sorted_wrt (\<lambda>a b. snd b \<le> snd a) xs" "p \<in> set (take k xs)" "q \<in> set xs"
    "q \<notin> set (take k xs)"
  shows "snd q \<le> snd p"
proof -
  from assms(3,4) have "q \<in> set (drop k xs)"
    by (metis Un_iff append_take_drop_id set_append)
  moreover have "sorted_wrt (\<lambda>a b. snd b \<le> snd a) (take k xs @ drop k xs)"
    using assms(1) by simp
  ultimately show ?thesis
    using assms(2) unfolding sorted_wrt_append by blast
qed

section \<open>Properties of \<open>fill_city\<close>\<close>

text \<open>
  C3. \<open>fill_city\<close> is the program's \<open>fill_missing\<close>, with the primary field
  \<open>City\<close> and the fallback field \<open>State/Province\<close>. It returns the city whenever the
  city is not null, whatever the row holds (or does not hold) under the fallback field;
  when the city is null it returns the fallback field's cell; and when both are null the
  result is null, returned as a value and not raised as an error.
\<close>

theorem fill_city_spec:
  "(\<forall>v. map_of r ''City'' = Some v \<and> v \<noteq> NaN \<longrightarrow> fill_city r = Inr v) \<and>
   (\<forall>w. map_of r ''City'' = Some NaN \<and> map_of r ''State/Province'' = Some w
        \<longrightarrow> fill_city r = Inr w) \<and>
   (map_of r ''City'' = Some NaN \<and> map_of r ''State/Province'' = Some NaN
        \<longrightarrow> fill_city r = Inr NaN)"
  by (auto simp: fill_city_def row_getitem_def isnull_def split: cell.splits)

theorem fill_city_spec_witness:
  "fill_city [(''City'', Str ''Seattle''), (''State/Province'', Str ''WA'')] = Inr (Str ''Seattle'') \<and>
   fill_city [(''City'', Str ''Seattle'')] = Inr (Str ''Seattle'') \<and>
   fill_city [(''City'', NaN), (''State/Province'', Str ''WA'')] = Inr (Str ''WA'') \<and>
   fill_city [(''City'', NaN), (''State/Province'', NaN)] = Inr NaN"
  using fill_city_spec [of "[(''City'', Str ''Seattle''), (''State/Province'', Str ''WA'')]"]
    fill_city_spec [of "[(''City'', Str ''Seattle'')]"]
    fill_city_spec [of "[(''City'', NaN), (''State/Province'', Str ''WA'')]"]
    fill_city_spec [of "[(''City'', NaN), (''State/Province'', NaN)]"]
  by simp

section \<open>Properties of \<open>apply_function\<close>\<close>



section \<open>Properties of \<open>filter_by_country\<close>\<close>

text \<open>
  C4. \<open>filter_by_country\<close> is the program's \<open>filter_by_equality\<close>, on the column
  \<open>Country\<close>. On a frame that has this column it returns a new frame whose rows are
  exactly the rows of the processor's frame whose country equals the code (each as often
  as it occurs there), and the processor after the call is the processor before it: its
  frame has the same number of rows and the same contents.
\<close>

theorem filter_by_country_nondestructive:
  assumes "''Country'' \<in> set (columns (df self))"
  shows "\<exists>res self'. filter_by_country code self = Inr (res, self') \<and>
     self' = self \<and>
     length (rows (df self')) = length (rows (df self)) \<and>
     rows (df self') = rows (df self) \<and>
     (\<forall>r. r \<in> set (rows res) \<longleftrightarrow>
        r \<in> set (rows (df self)) \<and> cell_at r ''Country'' = Str code) \<and>
     (\<forall>r. count_list (rows res) r =
        (if cell_at r ''Country'' = Str code then count_list (rows (df self)) r else 0))"
proof -
  have cnt: "count_list (filter P rs) r = (if P r then count_list rs r else 0)"
    for P and rs :: "row list" and r
    by (induction rs) auto
  show ?thesis
    using filter_by_country_eq [OF assms, of code] by (simp add: cnt)
qed

theorem filter_by_country_nondestructive_witness:
  "filter_by_country ''CN''
     \<lparr>config = [],
        df = \<lparr>columns = [''Store Number'', ''Country'', ''City''],
          rows =
         [[(''Store Number'', Num 1), (''Country'', Str ''US''), (''City'', Str ''Seattle'')],
          [(''Store Number'', Num 2), (''Country'', Str ''US''), (''City'', Str ''Seattle'')],
          [(''Store Number'', Num 3), (''Country'', Str ''CN''), (''City'', Str ''Beijing'')]]\<rparr>\<rparr> =
   Inr (\<lparr>columns = [''Store Number'', ''Country'', ''City''],
          rows = [[(''Store Number'', Num 3), (''Country'', Str ''CN''), (''City'', Str ''Beijing'')]]\<rparr>,
     \<lparr>config = [],
        df = \<lparr>columns = [''Store Number'', ''Country'', ''City''],
          rows =
         [[(''Store Number'', Num 1), (''Country'', Str ''US''), (''City'', Str ''Seattle'')],
          [(''Store Number'', Num 2), (''Country'', Str ''US''), (''City'', Str ''Seattle'')],
          [(''Store Number'', Num 3), (''Country'', Str ''CN''), (''City'', Str ''Beijing'')]]\<rparr>\<rparr>)"
proof -
  let ?p = "\<lparr>config = [],
        df = \<lparr>columns = [''Store Number'', ''Country'', ''City''],
          rows =
         [[(''Store Number'', Num 1), (''Country'', Str ''US''), (''City'', Str ''Seattle'')],
          [(''Store Number'', Num 2), (''Country'', Str ''US''), (''City'', Str ''Seattle'')],
          [(''Store Number'', Num 3), (''Country'', Str ''CN''), (''City'', Str ''Beijing'')]]\<rparr>\<rparr>"
  have h: "''Country'' \<in> set (columns (df ?p))"
    by simp
  from filter_by_country_nondestructive [OF h, of "''CN''"] show ?thesis
    by (simp add: filter_by_country_def getitem_def boolean_index_def series_eq_def cell_at_def)
qed

text \<open>
  C10. The frame returned by \<open>filter_by_country\<close> has the column labels of the
  processor's frame, and its rows are the ordered subsequence of the processor's rows
  whose country equals the code; each retained row is the stored row itself, with all
  its cells.
\<close>

theorem filter_by_country_subsequence:
  assumes "''Country'' \<in> set (columns (df self))"
  shows "\<exists>res self'. filter_by_country code self = Inr (res, self') \<and>
     columns res = columns (df self) \<and>
     rows res = filter (\<lambda>r. cell_at r ''Country'' = Str code) (rows (df self)) \<and>
     subseq (rows res) (rows (df self))"
  using filter_by_country_eq [OF assms, of code] by simp

theorem filter_by_country_subsequence_witness:
  "filter_by_country ''US''
     \<lparr>config = [],
        df = \<lparr>columns = [''Store Number'', ''Country'', ''City''],
          rows =
         [[(''Store Number'', Num 1), (''Country'', Str ''US''), (''City'', Str ''Seattle'')],
          [(''Store Number'', Num 2), (''Country'', Str ''US''), (''City'', Str ''Seattle'')],
          [(''Store Number'', Num 3), (''Country'', Str ''CN''), (''City'', Str ''Beijing'')]]\<rparr>\<rparr> =
   Inr (\<lparr>columns = [''Store Number'', ''Country'', ''City''],
          rows = [[(''Store Number'', Num 1), (''Country'', Str ''US''), (''City'', Str ''Seattle'')],
                  [(''Store Number'', Num 2), (''Country'', Str ''US''), (''City'', Str ''Seattle'')]]\<rparr>,
     \<lparr>config = [],
        df = \<lparr>columns = [''Store Number'', ''Country'', ''City''],
          rows =
         [[(''Store Number'', Num 1), (''Country'', Str ''US''), (''City'', Str ''Seattle'')],
          [(''Store Number'', Num 2), (''Country'', Str ''US''), (''City'', Str ''Seattle'')],
          [(''Store Number'', Num 3), (''Country'', Str ''CN''), (''City'', Str ''Beijing'')]]\<rparr>\<rparr>)"
proof -
  let ?p = "\<lparr>config = [],
        df = \<lparr>columns = [''Store Number'', ''Country'', ''City''],
          rows =
         [[(''Store Number'', Num 1), (''Country'', Str ''US''), (''City'', Str ''Seattle'')],
          [(''Store Number'', Num 2), (''Country'', Str ''US''), (''City'', Str ''Seattle'')],
          [(''Store Number'', Num 3), (''Country'', Str ''CN''), (''City'', Str ''Beijing'')]]\<rparr>\<rparr>"
  have h: "''Country'' \<in> set (columns (df ?p))"
    by simp
  from filter_by_country_subsequence [OF h, of "''US''"] show ?thesis
    by (simp add: filter_by_country_def getitem_def boolean_index_def series_eq_def cell_at_def)
qed

section \<open>Properties of \<open>replace_values\<close>\<close>

text \<open>
  C5. \<open>replace_values\<close> is the program's \<open>remap_values\<close>. On a frame that has the
  column it returns, whatever the cells and the keys of the value map are: a cell of the
  column whose value is a key of the map becomes the map's value for it, a cell whose
  value is not a key is unchanged, and no other column, label or row count changes.
\<close>

theorem replace_values_spec:
  assumes "column \<in> set (columns (df self))"
  shows "\<exists>self'. replace_values column value_map self = Inr self' \<and>
     config self' = config self \<and>
     columns (df self') = columns (df self) \<and>
     length (rows (df self')) = length (rows (df self)) \<and>
     (\<forall>i < length (rows (df self)).
        (\<forall>new. map_of value_map (cell_at (rows (df self) ! i) column) = Some new \<longrightarrow>
            cell_at (rows (df self') ! i) column = new) \<and>
        (map_of value_map (cell_at (rows (df self) ! i) column) = None \<longrightarrow>
            cell_at (rows (df self') ! i) column = cell_at (rows (df self) ! i) column) \<and>
        (\<forall>c. c \<noteq> column \<longrightarrow>
            cell_at (rows (df self') ! i) c = cell_at (rows (df self) ! i) c))"
  using assms
  by (simp add: replace_values_eq columns_setitem length_rows_setitem rows_setitem_nth
      cell_at_update replace_def)

theorem replace_values_spec_witness:
  "replace_values ''Brand'' [(Str ''Teavana'', Str ''Starbucks'')]
     \<lparr>config = [],
        df = \<lparr>columns = [''Brand'', ''City''],
          rows =
         [[(''Brand'', Str ''Teavana''), (''City'', Str ''Seattle'')],
          [(''Brand'', Str ''Evolution Fresh''), (''City'', Str ''Boston'')]]\<rparr>\<rparr> =
   Inr \<lparr>config = [],
        df = \<lparr>columns = [''Brand'', ''City''],
          rows =
         [[(''Brand'', Str ''Starbucks''), (''City'', Str ''Seattle'')],
          [(''Brand'', Str ''Evolution Fresh''), (''City'', Str ''Boston'')]]\<rparr>\<rparr>"
proof -
  let ?p = "\<lparr>config = [],
        df = \<lparr>columns = [''Brand'', ''City''],
          rows =
         [[(''Brand'', Str ''Teavana''), (''City'', Str ''Seattle'')],
          [(''Brand'', Str ''Evolution Fresh''), (''City'', Str ''Boston'')]]\<rparr>\<rparr>"
  have h: "''Brand'' \<in> set (columns (df ?p))"
    by simp
  from replace_values_spec [OF h, of "[(Str ''Teavana'', Str ''Starbucks'')]"] show ?thesis
    by (simp add: replace_values_def getitem_def setitem_def replace_def cell_at_def)
qed

text \<open>
  C7, as claimed: applying \<open>replace_values\<close> twice with the same value map gives the
  same table as applying it once. This fails for a map that chains its keys: with
  \<open>Teavana \<mapsto> Starbucks\<close> and \<open>Starbucks \<mapsto> Coffee House Holdings\<close>, a cell
  \<open>Teavana\<close> becomes \<open>Starbucks\<close> in the first call and \<open>Coffee House Holdings\<close> in
  the second.
\<close>

theorem replace_values_twice_counterexample:
  "replace_values ''Brand'' [(Str ''Teavana'', Str ''Starbucks''), (Str ''Starbucks'', Str ''Coffee House Holdings'')]
     \<lparr>config = [], df = \<lparr>columns = [''Brand''], rows = [[(''Brand'', Str ''Teavana'')]]\<rparr>\<rparr> =
   Inr \<lparr>config = [], df = \<lparr>columns = [''Brand''], rows = [[(''Brand'', Str ''Starbucks'')]]\<rparr>\<rparr> \<and>
   replace_values ''Brand'' [(Str ''Teavana'', Str ''Starbucks''), (Str ''Starbucks'', Str ''Coffee House Holdings'')]
     \<lparr>config = [], df = \<lparr>columns = [''Brand''], rows = [[(''Brand'', Str ''Starbucks'')]]\<rparr>\<rparr> =
   Inr \<lparr>config = [], df = \<lparr>columns = [''Brand''], rows = [[(''Brand'', Str ''Coffee House Holdings'')]]\<rparr>\<rparr> \<and>
   \<lparr>config = [], df = \<lparr>columns = [''Brand''], rows = [[(''Brand'', Str ''Starbucks'')]]\<rparr>\<rparr> \<noteq>
   \<lparr>config = [], df = \<lparr>columns = [''Brand''], rows = [[(''Brand'', Str ''Coffee House Holdings'')]]\<rparr>\<rparr>"
  by (simp add: replace_values_def getitem_def setitem_def replace_def cell_at_def)

text \<open>
  C7, amended. When a first call of \<open>replace_values\<close> returns, a second call with the
  same value map returns too. It yields the table of the first call whenever every value
  the map assigns is either not a key of the map or a key mapped to itself. For every cell
  of the column whose value is not a key of the map, both calls are no-ops: the cell
  holds its original value after the first and after the second call.
\<close>

theorem replace_values_twice:
  assumes "replace_values column vm self = Inr self1"
  shows "\<exists>self2. replace_values column vm self1 = Inr self2 \<and>
     ((\<forall>k v. map_of vm k = Some v \<longrightarrow> map_of vm v = None \<or> map_of vm v = Some v)
        \<longrightarrow> self2 = self1) \<and>
     (\<forall>i < length (rows (df self)).
        map_of vm (cell_at (rows (df self) ! i) column) = None \<longrightarrow>
          cell_at (rows (df self1) ! i) column = cell_at (rows (df self) ! i) column \<and>
          cell_at (rows (df self2) ! i) column = cell_at (rows (df self) ! i) column)"
proof -
  let ?s0 = "map (\<lambda>r. cell_at r column) (rows (df self))"
  let ?s1 = "replace ?s0 vm"
  let ?d1 = "setitem (df self) column ?s1"
  from assms have col: "column \<in> set (columns (df self))"
    by (auto simp: replace_values_def getitem_def split: if_splits)
  with assms have self1: "self1 = self\<lparr>df := ?d1\<rparr>"
    by (simp add: replace_values_eq)
  have len1: "length ?s1 = length (rows (df self))"
    by (simp add: length_replace)
  have col1: "column \<in> set (columns (df self1))"
    using col by (simp add: self1 columns_setitem)
  have s1: "map (\<lambda>r. cell_at r column) (rows (df self1)) = ?s1"
    using map_cell_at_setitem [OF len1] by (simp add: self1)
  let ?s2 = "replace ?s1 vm"
  let ?self2 = "self1\<lparr>df := setitem (df self1) column ?s2\<rparr>"
  have ret: "replace_values column vm self1 = Inr ?self2"
    using replace_values_eq [OF col1, of vm] by (simp add: s1)
  have idem: "?self2 = self1"
    if "\<forall>k v. map_of vm k = Some v \<longrightarrow> map_of vm v = None \<or> map_of vm v = Some v"
    using replace_fixed [OF that, of ?s0] setitem_same [OF len1 col]
    by (simp add: self1)
  have cells: "cell_at (rows (df self1) ! i) column = cell_at (rows (df self) ! i) column \<and>
          cell_at (rows (df ?self2) ! i) column = cell_at (rows (df self) ! i) column"
    if "i < length (rows (df self))" "map_of vm (cell_at (rows (df self) ! i) column) = None" for i
    using that
    by (simp add: self1 rows_setitem_nth length_rows_setitem length_replace cell_at_update replace_def)
  show ?thesis
    using ret idem cells by blast
qed

theorem replace_values_twice_witness:
  "replace_values ''Brand'' [(Str ''Starbucks'', Str ''Starbucks''), (Str ''Teavana'', Str ''Starbucks'')]
     \<lparr>config = [], df = \<lparr>columns = [''Brand''],
        rows = [[(''Brand'', Str ''Teavana'')], [(''Brand'', Str ''Starbucks'')], [(''Brand'', Str ''Evolution Fresh'')]]\<rparr>\<rparr> =
   Inr \<lparr>config = [], df = \<lparr>columns = [''Brand''],
        rows = [[(''Brand'', Str ''Starbucks'')], [(''Brand'', Str ''Starbucks'')], [(''Brand'', Str ''Evolution Fresh'')]]\<rparr>\<rparr> \<and>
   replace_values ''Brand'' [(Str ''Starbucks'', Str ''Starbucks''), (Str ''Teavana'', Str ''Starbucks'')]
     \<lparr>config = [], df = \<lparr>columns = [''Brand''],
        rows = [[(''Brand'', Str ''Starbucks'')], [(''Brand'', Str ''Starbucks'')], [(''Brand'', Str ''Evolution Fresh'')]]\<rparr>\<rparr> =
   Inr \<lparr>config = [], df = \<lparr>columns = [''Brand''],
        rows = [[(''Brand'', Str ''Starbucks'')], [(''Brand'', Str ''Starbucks'')], [(''Brand'', Str ''Evolution Fresh'')]]\<rparr>\<rparr>"
proof -
  let ?vm = "[(Str ''Starbucks'', Str ''Starbucks''), (Str ''Teavana'', Str ''Starbucks'')]"
  let ?p0 = "\<lparr>config = [], df = \<lparr>columns = [''Brand''],
        rows = [[(''Brand'', Str ''Teavana'')], [(''Brand'', Str ''Starbucks'')], [(''Brand'', Str ''Evolution Fresh'')]]\<rparr>\<rparr>"
  let ?p1 = "\<lparr>config = [], df = \<lparr>columns = [''Brand''],
        rows = [[(''Brand'', Str ''Starbucks'')], [(''Brand'', Str ''Starbucks'')], [(''Brand'', Str ''Evolution Fresh'')]]\<rparr>\<rparr>"
  have h: "replace_values ''Brand'' ?vm ?p0 = Inr ?p1"
    by (simp add: replace_values_def getitem_def setitem_def replace_def cell_at_def)
  have c: "\<forall>k v. map_of ?vm k = Some v \<longrightarrow> map_of ?vm v = None \<or> map_of ?vm v = Some v"
    by (auto split: if_splits)
  from replace_values_twice [OF h] c have "replace_values ''Brand'' ?vm ?p1 = Inr ?p1"
    by auto
  with h show ?thesis
    by simp
qed

section \<open>Properties of \<open>missing_data\<close>\<close>

text \<open>
  C8. \<open>missing_data\<close> is the program's \<open>column_nulls\<close>. It reports a column with a
  count exactly when the column is a column of the frame, the count is the number of the
  column's null cells, and that number is positive: no column with a zero null count is
  reported, and every reported count is the column's actual number of null cells.
\<close>

theorem missing_data_spec:
  "(c, n) \<in> set (missing_data self) \<longleftrightarrow>
     c \<in> set (columns (df self)) \<and>
     n = card {i. i < length (rows (df self)) \<and> cell_at (rows (df self) ! i) c = NaN} \<and>
     0 < n"
  unfolding missing_data_def isnull_sum_def null_count_card
  by auto

section \<open>Properties of \<open>analyze_data\<close>\<close>

text \<open>
  C1, as claimed: on every table with at least one row \<open>analyze_data\<close> (the program's
  \<open>summarize\<close>) returns its four statistics, and on a one-row table the counts are 1
  and the top country and city are the row's. This fails on a one-row table whose country
  is missing: \<open>value_counts\<close> leaves the missing cell out, the counted series is empty
  and \<open>.index[0]\<close> raises \<open>IndexError\<close>.
\<close>

theorem analyze_data_one_row_counterexample:
  "analyze_data
     \<lparr>columns = [''Store Number'', ''Country'', ''City''],
        rows =
         [[(''Store Number'', Num 1), (''Country'', NaN), (''City'', Str ''Seattle'')]]\<rparr> =
   Inl IndexError"
  by (simp add: analyze_data_def getitem_def cell_at_def index0_def value_counts_def nunique_def
        dropna_def isnull_def unique_def sort_values_desc_def)

text \<open>
  C1, amended. Let the table have the columns \<open>Store Number\<close>, \<open>Country\<close> and
  \<open>City\<close>, at least one non-null country and at least one non-null city. Then
  \<open>analyze_data\<close> returns; \<open>total_stores\<close> is the number of distinct non-null store
  numbers and \<open>total_countries\<close> the number of distinct non-null countries;
  \<open>top_country\<close> is a non-null country of some row whose row count is maximal among the
  non-null country values, and \<open>top_city\<close> likewise for the city column. On a one-row
  table whose store number is non-null it returns the counts 1 and 1 and that row's
  country and city.
\<close>

theorem analyze_data_spec:
  assumes "''Store Number'' \<in> set (columns d)" and "''Country'' \<in> set (columns d)"
    and "''City'' \<in> set (columns d)"
    and "\<exists>r \<in> set (rows d). cell_at r ''Country'' \<noteq> NaN"
    and "\<exists>r \<in> set (rows d). cell_at r ''City'' \<noteq> NaN"
  shows "\<exists>a. analyze_data d = Inr a \<and>
     total_stores a = card ((\<lambda>r. cell_at r ''Store Number'') ` set (rows d) - {NaN}) \<and>
     total_countries a = card ((\<lambda>r. cell_at r ''Country'') ` set (rows d) - {NaN}) \<and>
     top_country a \<noteq> NaN \<and>
     (\<exists>r \<in> set (rows d). cell_at r ''Country'' = top_country a) \<and>
     (\<forall>v. v \<noteq> NaN \<longrightarrow>
        length (filter (\<lambda>r. cell_at r ''Country'' = v) (rows d)) \<le>
        length (filter (\<lambda>r. cell_at r ''Country'' = top_country a) (rows d))) \<and>
     top_city a \<noteq> NaN \<and>
     (\<exists>r \<in> set (rows d). cell_at r ''City'' = top_city a) \<and>
     (\<forall>v. v \<noteq> NaN \<longrightarrow>
        length (filter (\<lambda>r. cell_at r ''City'' = v) (rows d)) \<le>
        length (filter (\<lambda>r. cell_at r ''City'' = top_city a) (rows d))) \<and>
     (\<forall>r. rows d = [r] \<and> cell_at r ''Store Number'' \<noteq> NaN \<longrightarrow>
        total_stores a = 1 \<and> total_countries a = 1 \<and>
        top_country a = cell_at r ''Country'' \<and> top_city a = cell_at r ''City'')"
proof -
  let ?a = "\<lparr>total_stores = nunique (map (\<lambda>r. cell_at r ''Store Number'') (rows d)),
             total_countries = nunique (map (\<lambda>r. cell_at r ''Country'') (rows d)),
             top_country = fst (hd (value_counts (map (\<lambda>r. cell_at r ''Country'') (rows d)))),
             top_city = fst (hd (value_counts (map (\<lambda>r. cell_at r ''City'') (rows d))))\<rparr>"
  have ret: "analyze_data d = Inr ?a"
    using assms by (auto simp: analyze_data_eq)
  have n1: "total_stores ?a = card ((\<lambda>r. cell_at r ''Store Number'') ` set (rows d) - {NaN})"
    by (simp add: nunique_card)
  have n2: "total_countries ?a = card ((\<lambda>r. cell_at r ''Country'') ` set (rows d) - {NaN})"
    by (simp add: nunique_card)
  have tc: "top_country ?a \<noteq> NaN \<and>
     (\<exists>r \<in> set (rows d). cell_at r ''Country'' = top_country ?a) \<and>
     (\<forall>v. v \<noteq> NaN \<longrightarrow>
        length (filter (\<lambda>r. cell_at r ''Country'' = v) (rows d)) \<le>
        length (filter (\<lambda>r. cell_at r ''Country'' = top_country ?a) (rows d)))"
    using top_value_counts [OF assms(4)] by simp
  have ti: "top_city ?a \<noteq> NaN \<and>
     (\<exists>r \<in> set (rows d). cell_at r ''City'' = top_city ?a) \<and>
     (\<forall>v. v \<noteq> NaN \<longrightarrow>
        length (filter (\<lambda>r. cell_at r ''City'' = v) (rows d)) \<le>
        length (filter (\<lambda>r. cell_at r ''City'' = top_city ?a) (rows d)))"
    using top_value_counts [OF assms(5)] by simp
  have one: "total_stores ?a = 1 \<and> total_countries ?a = 1 \<and>
        top_country ?a = cell_at r ''Country'' \<and> top_city ?a = cell_at r ''City''"
    if "rows d = [r]" "cell_at r ''Store Number'' \<noteq> NaN" for r
  proof -
    from assms(4) that have c: "cell_at r ''Country'' \<noteq> NaN" by simp
    from tc that have c': "top_country ?a = cell_at r ''Country''" by simp
    from ti that have i': "top_city ?a = cell_at r ''City''" by simp
    have "total_stores ?a = 1" unfolding n1 using that by simp
    moreover have "total_countries ?a = 1" unfolding n2 using that c by simp
    ultimately show ?thesis using c' i' by blast
  qed
  show ?thesis
    using ret n1 n2 tc ti one by blast
qed

theorem analyze_data_spec_witness:
  "analyze_data
     \<lparr>columns = [''Store Number'', ''Country'', ''City''],
        rows =
         [[(''Store Number'', Num 1), (''Country'', Str ''US''), (''City'', Str ''Seattle'')],
          [(''Store Number'', Num 2), (''Country'', Str ''US''), (''City'', Str ''Seattle'')],
          [(''Store Number'', Num 3), (''Country'', Str ''CN''), (''City'', Str ''Beijing'')]]\<rparr> =
   Inr \<lparr>total_stores = 3, total_countries = 2, top_country = Str ''US'',
          top_city = Str ''Seattle''\<rparr> \<and>
   analyze_data
     \<lparr>columns = [''Store Number'', ''Country'', ''City''],
        rows =
         [[(''Store Number'', Num 7), (''Country'', Str ''CN''), (''City'', Str ''Beijing'')]]\<rparr> =
   Inr \<lparr>total_stores = 1, total_countries = 1, top_country = Str ''CN'',
          top_city = Str ''Beijing''\<rparr>"
proof -
  let ?d = "\<lparr>columns = [''Store Number'', ''Country'', ''City''],
        rows =
         [[(''Store Number'', Num 1), (''Country'', Str ''US''), (''City'', Str ''Seattle'')],
          [(''Store Number'', Num 2), (''Country'', Str ''US''), (''City'', Str ''Seattle'')],
          [(''Store Number'', Num 3), (''Country'', Str ''CN''), (''City'', Str ''Beijing'')]]\<rparr>"
  let ?e = "\<lparr>columns = [''Store Number'', ''Country'', ''City''],
        rows =
         [[(''Store Number'', Num 7), (''Country'', Str ''CN''), (''City'', Str ''Beijing'')]]\<rparr>"
  have d: "''Store Number'' \<in> set (columns ?d)" "''Country'' \<in> set (columns ?d)"
    "''City'' \<in> set (columns ?d)" "\<exists>r \<in> set (rows ?d). cell_at r ''Country'' \<noteq> NaN"
    "\<exists>r \<in> set (rows ?d). cell_at r ''City'' \<noteq> NaN"
    by (simp_all add: cell_at_def)
  have e: "''Store Number'' \<in> set (columns ?e)" "''Country'' \<in> set (columns ?e)"
    "''City'' \<in> set (columns ?e)" "\<exists>r \<in> set (rows ?e). cell_at r ''Country'' \<noteq> NaN"
    "\<exists>r \<in> set (rows ?e). cell_at r ''City'' \<noteq> NaN"
    by (simp_all add: cell_at_def)
  from analyze_data_spec [OF d] analyze_data_spec [OF e] show ?thesis
    by (simp add: analyze_data_def getitem_def cell_at_def index0_def value_counts_def nunique_def
        dropna_def isnull_def unique_def sort_values_desc_def)
qed

text \<open>
  C2, as claimed: \<open>analyze_data\<close> fails on every table with zero rows and succeeds on
  every table with at least one row. The second half fails on a one-row table whose city
  is missing: the call raises the same \<open>IndexError\<close> as on the empty table.
\<close>

theorem analyze_data_nonempty_counterexample:
  "analyze_data
     \<lparr>columns = [''Store Number'', ''Country'', ''City''],
        rows =
         [[(''Store Number'', Num 1), (''Country'', Str ''US''), (''City'', NaN)]]\<rparr> =
   Inl IndexError"
  by (simp add: analyze_data_def getitem_def cell_at_def index0_def value_counts_def nunique_def
        dropna_def isnull_def unique_def sort_values_desc_def)

text \<open>
  C2, amended. Let the table have the columns \<open>Store Number\<close>, \<open>Country\<close> and
  \<open>City\<close>. On a table with zero rows \<open>analyze_data\<close> fails with \<open>IndexError\<close>, the
  error of taking the mode of an empty frequency distribution (the specification's
  \<open>EmptyTableError\<close>). It fails with this error exactly when the country column or the
  city column holds no non-null cell, and it succeeds, with a non-null top country and top
  city, on every table with at least one non-null country and one non-null city.
\<close>

theorem analyze_data_failure:
  assumes "''Store Number'' \<in> set (columns d)" and "''Country'' \<in> set (columns d)"
    and "''City'' \<in> set (columns d)"
  shows "(rows d = [] \<longrightarrow> analyze_data d = Inl IndexError) \<and>
     (analyze_data d = Inl IndexError \<longleftrightarrow>
        (\<forall>r \<in> set (rows d). cell_at r ''Country'' = NaN) \<or>
        (\<forall>r \<in> set (rows d). cell_at r ''City'' = NaN)) \<and>
     ((\<exists>r \<in> set (rows d). cell_at r ''Country'' \<noteq> NaN) \<and>
      (\<exists>r \<in> set (rows d). cell_at r ''City'' \<noteq> NaN) \<longrightarrow>
        (\<exists>a. analyze_data d = Inr a \<and> top_country a \<noteq> NaN \<and> top_city a \<noteq> NaN))"
proof -
  have tc: "fst (hd (value_counts (map (\<lambda>r. cell_at r c) (rows d)))) \<noteq> NaN"
    if "\<exists>r \<in> set (rows d). cell_at r c \<noteq> NaN" for c
    using top_value_counts [OF that] by simp
  show ?thesis
    using tc [of "''Country''"] tc [of "''City''"]
    by (auto simp: analyze_data_eq [OF assms])
qed

theorem analyze_data_failure_witness:
  "analyze_data \<lparr>columns = [''Store Number'', ''Country'', ''City''], rows = []\<rparr> =
   Inl IndexError \<and>
   analyze_data
     \<lparr>columns = [''Store Number'', ''Country'', ''City''],
        rows =
         [[(''Store Number'', Num 4), (''Country'', Str ''EG''), (''City'', Str ''Cairo'')]]\<rparr> =
   Inr \<lparr>total_stores = 1, total_countries = 1, top_country = Str ''EG'',
          top_city = Str ''Cairo''\<rparr>"
proof -
  let ?d = "\<lparr>columns = [''Store Number'', ''Country'', ''City''], rows = []\<rparr>"
  let ?e = "\<lparr>columns = [''Store Number'', ''Country'', ''City''],
        rows =
         [[(''Store Number'', Num 4), (''Country'', Str ''EG''), (''City'', Str ''Cairo'')]]\<rparr>"
  have d: "''Store Number'' \<in> set (columns ?d)" "''Country'' \<in> set (columns ?d)"
    "''City'' \<in> set (columns ?d)"
    by simp_all
  have e: "''Store Number'' \<in> set (columns ?e)" "''Country'' \<in> set (columns ?e)"
    "''City'' \<in> set (columns ?e)"
    by simp_all
  from analyze_data_failure [OF d] analyze_data_failure [OF e] show ?thesis
    by (simp add: analyze_data_def getitem_def cell_at_def index0_def value_counts_def nunique_def
        dropna_def isnull_def unique_def sort_values_desc_def)
qed

section \<open>Properties of \<open>plot_top_countries\<close>\<close>

text \<open>
  C6, as claimed: for every table and positive \<open>n\<close> the result of
  \<open>plot_top_countries\<close> (the program's \<open>top_n_by_frequency\<close> for the column
  \<open>Country\<close>) has as many pairs as the minimum of \<open>n\<close> and the number of distinct
  values in the column. This fails on a column with a missing cell: on the two-row table
  with the countries US and null, and \<open>n = 10\<close>, the column holds two distinct values
  (\<open>unique\<close> lists both), but \<open>value_counts\<close> leaves the null out and the result has
  the single pair \<open>(US, 1)\<close>.
\<close>

theorem plot_top_countries_null_counterexample:
  "plot_top_countries
     \<lparr>columns = [''Store Number'', ''Country'', ''City''],
        rows =
         [[(''Store Number'', Num 1), (''Country'', Str ''US''), (''City'', Str ''Seattle'')],
          [(''Store Number'', Num 2), (''Country'', NaN), (''City'', Str ''Windhoek'')]]\<rparr> 10 =
   Inr [(Str ''US'', 1)] \<and>
   getitem
     \<lparr>columns = [''Store Number'', ''Country'', ''City''],
        rows =
         [[(''Store Number'', Num 1), (''Country'', Str ''US''), (''City'', Str ''Seattle'')],
          [(''Store Number'', Num 2), (''Country'', NaN), (''City'', Str ''Windhoek'')]]\<rparr> ''Country'' =
   Inr [Str ''US'', NaN] \<and>
   unique [Str ''US'', NaN] = [Str ''US'', NaN] \<and>
   length [(Str ''US'', 1::nat)] \<noteq> min (nat 10) (length (unique [Str ''US'', NaN]))"
  by (simp add: plot_top_countries_def getitem_def cell_at_def value_counts_def dropna_def
      isnull_def unique_def sort_values_desc_def nlargest_def plot_top_n_def slice_to_def)

text \<open>
  C6, amended. \<open>plot_top_countries\<close> computes the program's \<open>top_n_by_frequency\<close>
  for the column \<open>Country\<close> and hands it to the chart. For every table with this column
  and every positive \<open>n\<close> it returns a sequence of (value, count) pairs sorted
  descending by count, whose length is the minimum of \<open>n\<close> and the number of distinct
  non-null values of the column; the values are non-null and pairwise distinct, each
  count is the number of rows holding the value, and no non-null value left out has more
  rows than a value listed. On the three-row table with the countries US, US, CN and
  \<open>n = 10\<close> the result is \<open>[(US, 2), (CN, 1)]\<close>.
\<close>

theorem plot_top_countries_spec:
  assumes "0 < n" and "''Country'' \<in> set (columns d)"
  shows "(\<exists>res. plot_top_countries d n = Inr res \<and>
     sorted_wrt (\<lambda>a b. snd b \<le> snd a) res \<and>
     length res = min (nat n) (card ((\<lambda>r. cell_at r ''Country'') ` set (rows d) - {NaN})) \<and>
     distinct (map fst res) \<and>
     (\<forall>v k. (v, k) \<in> set res \<longrightarrow>
        v \<noteq> NaN \<and> k = length (filter (\<lambda>r. cell_at r ''Country'' = v) (rows d)) \<and>
        (\<forall>w. w \<noteq> NaN \<and> w \<notin> fst ` set res \<longrightarrow>
           length (filter (\<lambda>r. cell_at r ''Country'' = w) (rows d)) \<le> k))) \<and>
   plot_top_countries
     \<lparr>columns = [''Store Number'', ''Country'', ''City''],
        rows =
         [[(''Store Number'', Num 1), (''Country'', Str ''US''), (''City'', Str ''Seattle'')],
          [(''Store Number'', Num 2), (''Country'', Str ''US''), (''City'', Str ''Seattle'')],
          [(''Store Number'', Num 3), (''Country'', Str ''CN''), (''City'', Str ''Beijing'')]]\<rparr> 10 =
   Inr [(Str ''US'', 2), (Str ''CN'', 1)]"
proof -
  let ?s = "map (\<lambda>r. cell_at r ''Country'') (rows d)"
  let ?vc = "value_counts ?s"
  let ?res = "take (nat n) ?vc"
  have ret: "plot_top_countries d n = Inr ?res"
    using assms by (rule plot_top_countries_eq)
  have srt: "sorted_wrt (\<lambda>a b. snd b \<le> snd a) ?res"
    using sorted_desc_value_counts [of ?s] by (rule sorted_wrt_take)
  have len: "length ?res = min (nat n) (card ((\<lambda>r. cell_at r ''Country'') ` set (rows d) - {NaN}))"
    by (simp add: length_value_counts nunique_card min.commute)
  have dst: "distinct (map fst ?res)"
    using distinct_take [OF distinct_value_counts, of "nat n" ?s] by (simp add: take_map)
  have ent: "v \<noteq> NaN \<and> k = length (filter (\<lambda>r. cell_at r ''Country'' = v) (rows d)) \<and>
        (\<forall>w. w \<noteq> NaN \<and> w \<notin> fst ` set ?res \<longrightarrow>
           length (filter (\<lambda>r. cell_at r ''Country'' = w) (rows d)) \<le> k)"
    if vk: "(v, k) \<in> set ?res" for v k
  proof -
    from vk have "(v, k) \<in> set ?vc"
      by (rule in_set_takeD)
    then have v: "v \<noteq> NaN" and k: "k = count_list ?s v"
      by (auto simp: set_value_counts)
    have top: "count_list ?s w \<le> k" if w: "w \<noteq> NaN" "w \<notin> fst ` set ?res" for w
    proof (cases "w \<in> set ?s")
      case False
      then have "count_list ?s w = 0"
        by (simp only: count_list_0_iff not_False_eq_True)
      then show ?thesis by simp
    next
      case True
      with w(1) have "(w, count_list ?s w) \<in> set ?vc"
        unfolding set_value_counts by blast
      moreover from w(2) have "(w, count_list ?s w) \<notin> set ?res"
        by force
      ultimately have "snd (w, count_list ?s w) \<le> snd (v, k)"
        using sorted_desc_take_drop [OF sorted_desc_value_counts vk] by blast
      then show ?thesis by simp
    qed
    show ?thesis
      using v k top by (simp add: count_list_map_rows)
  qed
  have scen: "plot_top_countries
     \<lparr>columns = [''Store Number'', ''Country'', ''City''],
        rows =
         [[(''Store Number'', Num 1), (''Country'', Str ''US''), (''City'', Str ''Seattle'')],
          [(''Store Number'', Num 2), (''Country'', Str ''US''), (''City'', Str ''Seattle'')],
          [(''Store Number'', Num 3), (''Country'', Str ''CN''), (''City'', Str ''Beijing'')]]\<rparr> 10 =
   Inr [(Str ''US'', 2), (Str ''CN'', 1)]"
    by (simp add: plot_top_countries_def getitem_def cell_at_def value_counts_def dropna_def
        isnull_def unique_def sort_values_desc_def nlargest_def plot_top_n_def slice_to_def)
  from ret srt len dst ent have "\<exists>res. plot_top_countries d n = Inr res \<and>
     sorted_wrt (\<lambda>a b. snd b \<le> snd a) res \<and>
     length res = min (nat n) (card ((\<lambda>r. cell_at r ''Country'') ` set (rows d) - {NaN})) \<and>
     distinct (map fst res) \<and>
     (\<forall>v k. (v, k) \<in> set res \<longrightarrow>
        v \<noteq> NaN \<and> k = length (filter (\<lambda>r. cell_at r ''Country'' = v) (rows d)) \<and>
        (\<forall>w. w \<noteq> NaN \<and> w \<notin> fst ` set res \<longrightarrow>
           length (filter (\<lambda>r. cell_at r ''Country'' = w) (rows d)) \<le> k))"
    by blast
  with scen show ?thesis
    by (rule conjI [rotated])
qed

theorem plot_top_countries_spec_witness:
  "plot_top_countries
     \<lparr>columns = [''Store Number'', ''Country'', ''City''],
        rows =
         [[(''Store Number'', Num 1), (''Country'', Str ''US''), (''City'', Str ''Seattle'')],
          [(''Store Number'', Num 2), (''Country'', Str ''US''), (''City'', Str ''Seattle'')],
          [(''Store Number'', Num 3), (''Country'', Str ''CN''), (''City'', Str ''Beijing'')]]\<rparr> 1 =
   Inr [(Str ''US'', 2)]"
proof -
  let ?d = "\<lparr>columns = [''Store Number'', ''Country'', ''City''],
        rows =
         [[(''Store Number'', Num 1), (''Country'', Str ''US''), (''City'', Str ''Seattle'')],
          [(''Store Number'', Num 2), (''Country'', Str ''US''), (''City'', Str ''Seattle'')],
          [(''Store Number'', Num 3), (''Country'', Str ''CN''), (''City'', Str ''Beijing'')]]\<rparr>"
  have h: "(0::int) < 1" "''Country'' \<in> set (columns ?d)"
    by simp_all
  from plot_top_countries_spec [OF h] show ?thesis
    by (simp add: plot_top_countries_def getitem_def cell_at_def value_counts_def dropna_def
        isnull_def unique_def sort_values_desc_def nlargest_def plot_top_n_def slice_to_def)
qed

end
